theory Spec2Isabelle
  imports Main "HOL-Library.Word" "HOL-Library.Signed_Division" "HOL-Library.AList"
begin

section \<open>Go values used by the harness\<close>

text \<open>
  A Go \<open>error\<close> is an opaque value that is only tested against \<open>nil\<close> and printed.
  \<open>error option\<close> is a Go error variable (\<open>None\<close> is \<open>nil\<close>). The constructors say
  where an error value was made: \<open>ErrorsNew\<close> by \<open>errors.New\<close> or \<open>fmt.Errorf\<close> in the
  harness itself, the \<open>Json\<close> ones and \<open>IoEOF\<close> by \<open>encoding/json\<close>, \<open>External\<close> by the
  operating system or by a library outside this repository.
\<close>

datatype error =
    ErrorsNew string
  | IoEOF
  | JsonUnknownField string
  | JsonUnmarshalTypeError string
  | External string

text \<open>A Go \<open>[]byte\<close>: the nil slice is not the empty slice.\<close>

datatype byteslice = NilSlice | Bytes string

fun contents :: "byteslice \<Rightarrow> string" where
  "contents NilSlice = []"
| "contents (Bytes b) = b"

text \<open>\<open>bytes.Equal\<close> compares contents: a nil slice equals an empty one.\<close>

definition bytes_Equal :: "byteslice \<Rightarrow> byteslice \<Rightarrow> bool" where
  "bytes_Equal a b = (contents a = contents b)"

datatype panic =
    IndexOutOfRange int nat
  | NilDereference
  | PanicError error
  | PanicMsg string

text \<open>An index expression \<open>xs[i]\<close> panics outside \<open>0 \<le> i < len(xs)\<close>.\<close>

definition index :: "'a list \<Rightarrow> int \<Rightarrow> panic + 'a" where
  "index xs i =
     (if 0 \<le> i \<and> i < int (length xs) then Inr (xs ! nat i)
      else Inl (IndexOutOfRange i (length xs)))"

subsection \<open>Number and byte formatting (strconv, encoding/hex)\<close>

fun digits :: "nat \<Rightarrow> string" where
  "digits n =
     (if n < 10 then [''0123456789'' ! n]
      else digits (n div 10) @ [''0123456789'' ! (n mod 10)])"

declare digits.simps [simp del]

definition Itoa :: "int \<Rightarrow> string" where
  "Itoa i = (if i < 0 then CHR ''-'' # digits (nat (- i)) else digits (nat i))"

definition is_digit :: "char \<Rightarrow> bool" where
  "is_digit c = (48 \<le> (of_char c :: nat) \<and> (of_char c :: nat) \<le> 57)"

definition digits_value :: "string \<Rightarrow> int" where
  "digits_value ds = foldl (\<lambda>a c. 10 * a + (int (of_char c) - 48)) 0 ds"

text \<open>\<open>strconv.Atoi\<close>: an optional sign, then decimal digits, within 64 bits.\<close>

definition Atoi :: "string \<Rightarrow> error + int" where
  "Atoi s =
     (let neg = (s \<noteq> [] \<and> hd s = CHR ''-'');
          ds = (if s \<noteq> [] \<and> (hd s = CHR ''-'' \<or> hd s = CHR ''+'') then tl s else s)
      in if ds = [] \<or> \<not> list_all is_digit ds
         then Inl (External (''strconv.Atoi: parsing '' @ s @ '': invalid syntax''))
         else let v = (if neg then - digits_value ds else digits_value ds)
              in if v < - (2 ^ 63) \<or> 2 ^ 63 - 1 < v
                 then Inl (External (''strconv.Atoi: parsing '' @ s @ '': value out of range''))
                 else Inr v)"

definition hex_byte :: "char \<Rightarrow> string" where
  "hex_byte c =
     [''0123456789abcdef'' ! ((of_char c :: nat) div 16),
      ''0123456789abcdef'' ! ((of_char c :: nat) mod 16)]"

text \<open>\<open>hex.EncodeToString\<close>, which is also what the verb \<open>%x\<close> prints for a byte slice.\<close>

definition hex_EncodeToString :: "string \<Rightarrow> string" where
  "hex_EncodeToString b = concat (map hex_byte b)"

section \<open>JSON decoding (encoding/json)\<close>

text \<open>
  The decoder of \<open>encoding/json\<close> is a library outside the repository. It is modelled in
  two halves. The scanner, from bytes to a JSON value, is a parameter of the model
  (\<open>scan\<close>): it says which value a byte string denotes, or with which error it is
  refused. What \<open>Decode\<close> then does with the value is written out below for the kinds of
  Go types the harness decodes into, following the library's documentation: object keys
  are matched to struct fields exactly or else ignoring ASCII case, keys are processed in
  order, the first error met is kept while decoding goes on, \<open>null\<close> leaves strings,
  numbers and structs as they are and sets pointers and maps to nil, a pointer is
  allocated for any other value, a \<open>json.RawMessage\<close> takes any value (also \<open>null\<close>)
  unread, and with \<open>DisallowUnknownFields\<close> an object key that matches no field of the
  struct is an error. A \<open>json.RawMessage\<close> is kept as the value its bytes denote.
\<close>

datatype json =
    JNull
  | JBool bool
  | JNumber string
  | JString string
  | JArray "json list"
  | JObject "(string \<times> json) list"

datatype gotype =
    TString
  | TInt
  | TRawMessage
  | TPtr gotype
  | TStruct "(string \<times> gotype) list"
  | TMapStringInterface

datatype goval =
    VString string
  | VInt int
  | VRawMessage "json option"
  | VPtr "goval option"
  | VStruct "(string \<times> goval) list"
  | VMap "(string \<times> json) list option"

fun zero :: "gotype \<Rightarrow> goval" where
  "zero TString = VString []"
| "zero TInt = VInt 0"
| "zero TRawMessage = VRawMessage None"
| "zero (TPtr t) = VPtr None"
| "zero (TStruct fs) = VStruct (map (\<lambda>f. (fst f, zero (snd f))) fs)"
| "zero TMapStringInterface = VMap None"

definition lower :: "char \<Rightarrow> char" where
  "lower c =
     (if 65 \<le> (of_char c :: nat) \<and> (of_char c :: nat) \<le> 90
      then char_of ((of_char c :: nat) + 32) else c)"

definition equalFold :: "string \<Rightarrow> string \<Rightarrow> bool" where
  "equalFold s t = (map lower s = map lower t)"

text \<open>The field for an object key: an exact name match, else the first field whose
  name matches ignoring case.\<close>

definition find_field :: "(string \<times> 'a) list \<Rightarrow> string \<Rightarrow> (string \<times> 'a) option" where
  "find_field fs k =
     (case List.find (\<lambda>f. fst f = k) fs of
        Some f \<Rightarrow> Some f
      | None \<Rightarrow> List.find (\<lambda>f. equalFold (fst f) k) fs)"

definition field_value :: "(string \<times> goval) list \<Rightarrow> string \<Rightarrow> gotype \<Rightarrow> goval" where
  "field_value vs name t = (case map_of vs name of Some w \<Rightarrow> w | None \<Rightarrow> zero t)"

text \<open>\<open>saveError\<close>: only the first error is kept.\<close>

fun saveError :: "error \<Rightarrow> error option \<Rightarrow> error option" where
  "saveError e None = Some e"
| "saveError e (Some e0) = Some e0"

text \<open>A JSON integer literal for a Go \<open>int\<close>: no fraction, no exponent, 64 bits.\<close>

definition parse_int :: "string \<Rightarrow> int option" where
  "parse_int lit =
     (let neg = (lit \<noteq> [] \<and> hd lit = CHR ''-'');
          ds = (if neg then tl lit else lit)
      in if ds = [] \<or> \<not> list_all is_digit ds then None
         else let v = (if neg then - digits_value ds else digits_value ds)
              in if v < - (2 ^ 63) \<or> 2 ^ 63 - 1 < v then None else Some v)"

fun unmarshal :: "bool \<Rightarrow> gotype \<Rightarrow> json \<Rightarrow> goval \<Rightarrow> error option \<Rightarrow> goval \<times> error option"
  and object :: "bool \<Rightarrow> (string \<times> gotype) list \<Rightarrow> (string \<times> json) list
                   \<Rightarrow> (string \<times> goval) list \<Rightarrow> error option
                   \<Rightarrow> (string \<times> goval) list \<times> error option"
where
  "unmarshal strict TRawMessage j v s = (VRawMessage (Some j), s)"
| "unmarshal strict (TPtr t) JNull v s = (VPtr None, s)"
| "unmarshal strict (TPtr t) j v s =
     (case unmarshal strict t j (case v of VPtr (Some w) \<Rightarrow> w | _ \<Rightarrow> zero t) s of
        (w', s') \<Rightarrow> (VPtr (Some w'), s'))"
| "unmarshal strict t JNull v s = (if t = TMapStringInterface then VMap None else v, s)"
| "unmarshal strict TString (JString x) v s = (VString x, s)"
| "unmarshal strict TInt (JNumber lit) v s =
     (case parse_int lit of
        Some n \<Rightarrow> (VInt n, s)
      | None \<Rightarrow> (v, saveError (JsonUnmarshalTypeError (''number '' @ lit)) s))"
| "unmarshal strict TMapStringInterface (JObject kvs) v s =
     (VMap (Some (fold (\<lambda>kv m. AList.update (fst kv) (snd kv) m) kvs
                    (case v of VMap (Some m) \<Rightarrow> m | _ \<Rightarrow> []))), s)"
| "unmarshal strict (TStruct fs) (JObject kvs) v s =
     (case object strict fs kvs
             (case v of VStruct vs \<Rightarrow> vs | _ \<Rightarrow> map (\<lambda>f. (fst f, zero (snd f))) fs) s of
        (vs', s') \<Rightarrow> (VStruct vs', s'))"
| "unmarshal strict t (JBool b) v s = (v, saveError (JsonUnmarshalTypeError ''bool'') s)"
| "unmarshal strict t (JNumber lit) v s = (v, saveError (JsonUnmarshalTypeError ''number'') s)"
| "unmarshal strict t (JString x) v s = (v, saveError (JsonUnmarshalTypeError ''string'') s)"
| "unmarshal strict t (JArray xs) v s = (v, saveError (JsonUnmarshalTypeError ''array'') s)"
| "unmarshal strict t (JObject kvs) v s = (v, saveError (JsonUnmarshalTypeError ''object'') s)"
| "object strict fs [] vs s = (vs, s)"
| "object strict fs (kv # kvs) vs s =
     (case find_field fs (fst kv) of
        None \<Rightarrow>
          object strict fs kvs vs (if strict then saveError (JsonUnknownField (fst kv)) s else s)
      | Some f \<Rightarrow>
          (case unmarshal strict (snd f) (snd kv) (field_value vs (fst f) (snd f)) s of
             (w, s') \<Rightarrow> object strict fs kvs (AList.update (fst f) w vs) s'))"


text \<open>\<open>Decode\<close> on a reader over bytes, and on a reader over a \<open>json.RawMessage\<close>; a nil
  raw message is an empty input, which \<open>Decode\<close> refuses with \<open>io.EOF\<close>.\<close>

definition Decode :: "(string \<Rightarrow> error + json) \<Rightarrow> bool \<Rightarrow> gotype \<Rightarrow> string \<Rightarrow> goval
                        \<Rightarrow> goval \<times> error option" where
  "Decode scan strict t body v =
     (case scan body of Inl e \<Rightarrow> (v, Some e) | Inr j \<Rightarrow> unmarshal strict t j v None)"

definition DecodeRaw :: "bool \<Rightarrow> gotype \<Rightarrow> json option \<Rightarrow> goval \<Rightarrow> goval \<times> error option" where
  "DecodeRaw strict t raw v =
     (case raw of None \<Rightarrow> (v, Some IoEOF) | Some j \<Rightarrow> unmarshal strict t j v None)"

text \<open>The structs \<open>Error\<close> and \<open>ServerResponse\<close> of the source, by their JSON tags.\<close>

definition ErrorT :: gotype where
  "ErrorT = TStruct [(''message'', TString), (''code'', TInt), (''data'', TMapStringInterface)]"

definition ServerResponseT :: gotype where
  "ServerResponseT =
     TStruct [(''jsonrpc'', TString), (''result'', TRawMessage),
              (''error'', TPtr ErrorT), (''id'', TPtr TRawMessage)]"

text \<open>Reading a field of a decoded struct.\<close>

definition field :: "goval \<Rightarrow> string \<Rightarrow> goval option" where
  "field v name = (case v of VStruct vs \<Rightarrow> map_of vs name | _ \<Rightarrow> None)"

definition response_Error :: "goval \<Rightarrow> goval option" where
  "response_Error response =
     (case field response ''error'' of Some (VPtr (Some e)) \<Rightarrow> Some e | _ \<Rightarrow> None)"

definition response_Result :: "goval \<Rightarrow> json option" where
  "response_Result response =
     (case field response ''result'' of Some (VRawMessage r) \<Rightarrow> r | _ \<Rightarrow> None)"

definition Error_Message :: "goval \<Rightarrow> string" where
  "Error_Message e = (case field e ''message'' of Some (VString m) \<Rightarrow> m | _ \<Rightarrow> [])"

section \<open>The world: a log of effects, an environment that answers them\<close>

text \<open>
  Every effect of the harness is logged with its result. The environment is
  deterministic and may answer each request from the whole log so far, so a node may
  fail twice and then answer.
\<close>

datatype Cmd = Cmd string "string list"

datatype http_result =
    DoError error
  | Response int "error + string"

datatype event =
    Stdout string
  | Stderr string
  | Sleep nat
  | Http string string http_result
  | RandIntn int int
  | Create string "error option"
  | FileWrite string string
  | FileClose string
  | CombinedOutput Cmd string "error option"
  | StdoutPipe Cmd "error option"
  | StderrPipe Cmd "error option"
  | CmdStart Cmd "error option"
  | GoCopy string
  | GoWait Cmd
  | Kill Cmd "error option"

text \<open>
  The environment: the operating system and the network, and the functions of
  libraries outside the repository (\<open>encoding/json\<close>'s scanner, \<open>net/http\<close>,
  gossamer's \<open>common.HexToBytes\<close>, \<open>common.BytesToHex\<close> and the extrinsic encoder,
  \<open>math/rand\<close>). In \<open>Response status body\<close> the body is what \<open>ioutil.ReadAll\<close> returns.
\<close>

record env =
  json_scan :: "string \<Rightarrow> error + json"
  http_NewRequest :: "string \<Rightarrow> error option"
  http_Do :: "event list \<Rightarrow> string \<Rightarrow> string \<Rightarrow> http_result"
  HexToBytes :: "string \<Rightarrow> byteslice \<times> error option"
  BytesToHex :: "string \<Rightarrow> string"
  ext_Encode :: "string \<Rightarrow> string \<Rightarrow> byteslice \<times> error option"
  rand_source :: "event list \<Rightarrow> nat"
  os_Create :: "event list \<Rightarrow> string \<Rightarrow> error option"
  cmd_CombinedOutput :: "event list \<Rightarrow> Cmd \<Rightarrow> string \<times> error option"
  cmd_StdoutPipe :: "event list \<Rightarrow> Cmd \<Rightarrow> error option"
  cmd_StderrPipe :: "event list \<Rightarrow> Cmd \<Rightarrow> error option"
  cmd_Start :: "event list \<Rightarrow> Cmd \<Rightarrow> error option"
  process_Kill :: "event list \<Rightarrow> Cmd \<Rightarrow> error option"

text \<open>Deferred calls of \<open>run\<close> and \<open>main\<close>: closing a file, and the loop that kills the
  first \<open>num\<close> processes (logging kill failures or not).\<close>

datatype deferred = DClose string | DKillAll int bool

text \<open>The program state: the log, the package variable \<open>gossamerPath\<close>, and the
  variables of \<open>run\<close> that its closures share.\<close>

record state =
  trace :: "event list"
  gossamerPath :: string
  processes :: "Cmd list"
  wg :: int
  nodeAddr :: string
  defers :: "deferred list"

text \<open>A computation returns a value, or ends the process with \<open>os.Exit\<close>, or panics.\<close>

datatype 'a res = Ret 'a | Exit int | Panic panic

type_synonym 'a M = "state \<Rightarrow> 'a res \<times> state"

definition ret :: "'a \<Rightarrow> 'a M" where
  "ret a = (\<lambda>s. (Ret a, s))"

definition bnd :: "'a M \<Rightarrow> ('a \<Rightarrow> 'b M) \<Rightarrow> 'b M" where
  "bnd m f = (\<lambda>s. case m s of
                     (Ret a, s') \<Rightarrow> f a s'
                   | (Exit c, s') \<Rightarrow> (Exit c, s')
                   | (Panic p, s') \<Rightarrow> (Panic p, s'))"

definition os_Exit :: "int \<Rightarrow> 'a M" where
  "os_Exit c = (\<lambda>s. (Exit c, s))"

definition do_panic :: "panic \<Rightarrow> 'a M" where
  "do_panic p = (\<lambda>s. (Panic p, s))"

definition emit :: "event \<Rightarrow> unit M" where
  "emit e = (\<lambda>s. (Ret (), s\<lparr>trace := trace s @ [e]\<rparr>))"

text \<open>An effect answered by the environment from the log so far, and logged.\<close>

definition io :: "(event list \<Rightarrow> 'r) \<Rightarrow> ('r \<Rightarrow> event) \<Rightarrow> 'r M" where
  "io f ev = (\<lambda>s. (Ret (f (trace s)), s\<lparr>trace := trace s @ [ev (f (trace s))]\<rparr>))"

definition indexM :: "'a list \<Rightarrow> int \<Rightarrow> 'a M" where
  "indexM xs i = (case index xs i of Inl p \<Rightarrow> do_panic p | Inr x \<Rightarrow> ret x)"

text \<open>A goroutine, in the schedule where it runs to its end as soon as it is started.
  A panic that unwinds a goroutine ends the process with status 2; the deferred calls
  of the other goroutines do not run.\<close>

definition go :: "unit M \<Rightarrow> unit M" where
  "go m = (\<lambda>s. case m s of (Panic p, s') \<Rightarrow> (Exit 2, s') | r \<Rightarrow> r)"

text \<open>The \<open>Error()\<close> text of an error value (for the library's errors, in outline).\<close>

fun Error :: "error \<Rightarrow> string" where
  \<open>Error (ErrorsNew m) = m\<close>
| \<open>Error IoEOF = ''EOF''\<close>
| \<open>Error (JsonUnknownField k) = ''json: unknown field "'' @ k @ ''"''\<close>
| \<open>Error (JsonUnmarshalTypeError v) = ''json: cannot unmarshal '' @ v\<close>
| \<open>Error (External m) = m\<close>

definition Print :: "string \<Rightarrow> unit M" where
  "Print text = emit (Stdout text)"

definition Println :: "string \<Rightarrow> unit M" where
  "Println text = emit (Stdout (text @ ''\<newline>''))"

definition time_Sleep :: "nat \<Rightarrow> unit M" where
  "time_Sleep seconds = emit (Sleep seconds)"

section \<open>The RPC client\<close>

definition request_body :: "string \<Rightarrow> string \<Rightarrow> string" where
  \<open>request_body method params =
     ''{"jsonrpc":"2.0","method":"'' @ method @ ''","params":'' @ params @ '',"id":1}''\<close>

text \<open>\<open>postRPC\<close>. Writing to a \<open>bytes.Buffer\<close> returns no error, so that branch of the
  source is not reachable; closing the response body has no effect that is logged.\<close>

definition postRPC :: "env \<Rightarrow> string \<Rightarrow> string \<Rightarrow> string \<Rightarrow> (byteslice \<times> error option) M" where
  "postRPC env method host params =
     (case http_NewRequest env host of
        Some err \<Rightarrow> ret (NilSlice, Some err)
      | None \<Rightarrow>
          bnd (io (\<lambda>h. http_Do env h host (request_body method params))
                  (Http host (request_body method params)))
            (\<lambda>r. case r of
                    DoError err \<Rightarrow> ret (NilSlice, Some err)
                  | Response status body \<Rightarrow>
                      if status \<noteq> 200 then ret (NilSlice, Some (ErrorsNew ''status code not OK''))
                      else (case body of
                              Inl err \<Rightarrow> bnd (Println (Error err)) (\<lambda>_. os_Exit 1)
                            | Inr respBody \<Rightarrow> ret (Bytes respBody, None))))"

definition decodeRPC :: "env \<Rightarrow> gotype \<Rightarrow> string \<Rightarrow> goval \<Rightarrow> goval \<times> error option" where
  "decodeRPC env t body target =
     (case Decode (json_scan env) True ServerResponseT body (zero ServerResponseT) of
        (response, Some err) \<Rightarrow> (target, Some err)
      | (response, None) \<Rightarrow>
          (case response_Error response of
             Some e \<Rightarrow> (target, Some (ErrorsNew (Error_Message e)))
           | None \<Rightarrow> DecodeRaw True t (response_Result response) target))"

definition getStorage :: "env \<Rightarrow> string \<Rightarrow> string \<Rightarrow> (byteslice \<times> error option) M" where
  \<open>getStorage env endpoint key =
     bnd (postRPC env ''state_getStorage'' endpoint (''["'' @ BytesToHex env key @ ''"]''))
       (\<lambda>(respBody, err). case err of
            Some e \<Rightarrow> ret (NilSlice, Some e)
          | None \<Rightarrow>
              (case decodeRPC env TString (contents respBody) (VString []) of
                 (v, Some e) \<Rightarrow> ret (NilSlice, Some e)
               | (v, None) \<Rightarrow>
                   (case v of
                      VString x \<Rightarrow>
                        if x = [] then ret (Bytes [], None)
                        else (case HexToBytes env x of
                                (val, Some e) \<Rightarrow> ret (NilSlice, Some e)
                              | (val, None) \<Rightarrow> ret (val, None))
                    | _ \<Rightarrow> ret (Bytes [], None))))\<close>

text \<open>The response type of \<open>system_networkState\<close> is declared in gossamer's package
  \<open>modules\<close>, outside the repository: a struct holding a struct \<open>NetworkState\<close> with a
  string \<open>PeerID\<close>. \<open>getPeerID\<close> passes a pointer to its pointer, so a \<open>null\<close> result sets
  the pointer to nil and the field access then panics.\<close>

definition SystemNetworkStateResponseT :: gotype where
  "SystemNetworkStateResponseT = TStruct [(''networkState'', TStruct [(''peerId'', TString)])]"

definition NetworkState_PeerID :: "goval \<Rightarrow> string" where
  "NetworkState_PeerID v =
     (case field v ''networkState'' of
        Some ns \<Rightarrow> (case field ns ''peerId'' of Some (VString p) \<Rightarrow> p | _ \<Rightarrow> [])
      | None \<Rightarrow> [])"

definition getPeerID :: "env \<Rightarrow> string \<Rightarrow> (string \<times> error option) M" where
  "getPeerID env endpoint =
     bnd (postRPC env ''system_networkState'' endpoint ''[]'')
       (\<lambda>(respBody, err). case err of
            Some e \<Rightarrow> ret ([], Some e)
          | None \<Rightarrow>
              (case decodeRPC env (TPtr SystemNetworkStateResponseT) (contents respBody)
                      (VPtr (Some (zero SystemNetworkStateResponseT))) of
                 (networkState, Some e) \<Rightarrow> ret ([], Some e)
               | (networkState, None) \<Rightarrow>
                   (case networkState of
                      VPtr (Some v) \<Rightarrow> ret (NetworkState_PeerID v, None)
                    | _ \<Rightarrow> do_panic NilDereference)))"


section \<open>Package variables\<close>

definition keys :: "string list" where
  "keys = [''alice'', ''bob'', ''charlie'', ''dave'', ''eve'', ''fred'', ''george'',
           ''heather'', ''ian'']"

definition baseaddr :: string where
  "baseaddr = ''/ip4/127.0.0.1/tcp/''"

definition baseRPCPort :: int where
  "baseRPCPort = 8540"

definition baseport :: int where
  "baseport = 7000"

definition genesis :: string where
  "genesis = ''genesis.json''"

definition config :: string where
  "config = ''config.toml''"

definition maxRetries :: int where
  "maxRetries = 36"

definition init_state :: state where
  "init_state =
     \<lparr>trace = [], gossamerPath = ''../../ChainSafe/gossamer/bin/gossamer'',
      processes = [], wg = 0, nodeAddr = [], defers = []\<rparr>"

section \<open>Access to the shared variables\<close>

definition get_gossamerPath :: "string M" where
  "get_gossamerPath = (\<lambda>s. (Ret (gossamerPath s), s))"

definition set_gossamerPath :: "string \<Rightarrow> unit M" where
  "set_gossamerPath p = (\<lambda>s. (Ret (), s\<lparr>gossamerPath := p\<rparr>))"

definition get_nodeAddr :: "string M" where
  "get_nodeAddr = (\<lambda>s. (Ret (nodeAddr s), s))"

definition set_nodeAddr :: "string \<Rightarrow> unit M" where
  "set_nodeAddr a = (\<lambda>s. (Ret (), s\<lparr>nodeAddr := a\<rparr>))"

definition get_processes :: "Cmd list M" where
  "get_processes = (\<lambda>s. (Ret (processes s), s))"

definition append_process :: "Cmd \<Rightarrow> unit M" where
  "append_process p = (\<lambda>s. (Ret (), s\<lparr>processes := processes s @ [p]\<rparr>))"

definition defer_call :: "deferred \<Rightarrow> unit M" where
  "defer_call d = (\<lambda>s. (Ret (), s\<lparr>defers := d # defers s\<rparr>))"

text \<open>\<open>sync.WaitGroup\<close>: a counter that must not go below zero. In the schedule of
  \<open>go\<close> every goroutine has ended when \<open>Wait\<close> is reached, so a counter above zero
  there is a deadlock, which the runtime ends with status 2.\<close>

definition wg_Add :: "int \<Rightarrow> unit M" where
  "wg_Add delta =
     (\<lambda>s. if wg s + delta < 0 then (Panic (PanicMsg ''sync: negative WaitGroup counter''), s)
          else (Ret (), s\<lparr>wg := wg s + delta\<rparr>))"

definition wg_Done :: "unit M" where
  "wg_Done = wg_Add (- 1)"

definition wg_Wait :: "unit M" where
  "wg_Wait = (\<lambda>s. if wg s = 0 then (Ret (), s) else (Exit 2, s))"

text \<open>\<open>rand.Intn\<close> panics unless its argument is positive.\<close>

definition rand_Intn :: "env \<Rightarrow> int \<Rightarrow> int M" where
  "rand_Intn env n =
     (if n \<le> 0 then do_panic (PanicMsg ''invalid argument to Intn'')
      else io (\<lambda>h. int (rand_source env h) mod n) (RandIntn n))"

section \<open>The process launcher (flag variant)\<close>

definition init_command :: "string \<Rightarrow> string \<Rightarrow> string \<Rightarrow> Cmd" where
  "init_command path basepath genesis' =
     Cmd path [''init'', ''--config'', config, ''--basepath'', basepath,
               ''--genesis'', genesis', ''--force'']"

definition node_command :: "string \<Rightarrow> int \<Rightarrow> string \<Rightarrow> string \<Rightarrow> string \<Rightarrow> Cmd" where
  "node_command path idx key basepath bootnodes =
     Cmd path [''--port'', Itoa (baseport + idx), ''--config'', config, ''--key'', key,
               ''--basepath'', basepath, ''--rpcport'', Itoa (baseRPCPort + idx), ''--rpc'',
               ''--bootnodes'', bootnodes]"

definition fail_exit :: "string \<Rightarrow> 'a M" where
  "fail_exit text = bnd (Print text) (\<lambda>_. os_Exit 1)"

definition initAndStart :: "env \<Rightarrow> int \<Rightarrow> string \<Rightarrow> string \<Rightarrow> string \<Rightarrow> string \<Rightarrow> Cmd M" where
  "initAndStart env idx genesis' bootnodes outfile errfile =
     bnd (indexM keys idx) (\<lambda>key.
     bnd get_gossamerPath (\<lambda>path.
     bnd (io (\<lambda>h. cmd_CombinedOutput env h (init_command path (''~/.gossamer_'' @ key) genesis'))
             (\<lambda>r. CombinedOutput (init_command path (''~/.gossamer_'' @ key) genesis')
                     (fst r) (snd r)))
       (\<lambda>(stdout, err). case err of
          Some e \<Rightarrow>
            fail_exit (''failed to initialize node '' @ Itoa idx @ '': '' @ Error e @ ''\<newline>'')
        | None \<Rightarrow>
     bnd (emit (FileWrite outfile stdout)) (\<lambda>_.
     bnd (Println (''initialized node '' @ key)) (\<lambda>_.
     bnd get_gossamerPath (\<lambda>path'.
     bnd (io (\<lambda>h. cmd_StdoutPipe env h
                    (node_command path' idx key (''~/.gossamer_'' @ key) bootnodes))
             (StdoutPipe (node_command path' idx key (''~/.gossamer_'' @ key) bootnodes)))
       (\<lambda>err. case err of
          Some e \<Rightarrow>
            fail_exit (''failed to get stdoutPipe from node '' @ Itoa idx @ '': '' @ Error e
                       @ ''\<newline>'')
        | None \<Rightarrow>
     bnd (io (\<lambda>h. cmd_StderrPipe env h
                    (node_command path' idx key (''~/.gossamer_'' @ key) bootnodes))
             (StderrPipe (node_command path' idx key (''~/.gossamer_'' @ key) bootnodes)))
       (\<lambda>err. case err of
          Some e \<Rightarrow>
            fail_exit (''failed to get stderrPipe from node '' @ Itoa idx @ '': '' @ Error e
                       @ ''\<newline>'')
        | None \<Rightarrow>
     bnd (io (\<lambda>h. cmd_Start env h
                    (node_command path' idx key (''~/.gossamer_'' @ key) bootnodes))
             (CmdStart (node_command path' idx key (''~/.gossamer_'' @ key) bootnodes)))
       (\<lambda>err. case err of
          Some e \<Rightarrow>
            fail_exit (''failed to start node '' @ Itoa idx @ '': '' @ Error e @ ''\<newline>'')
        | None \<Rightarrow>
     bnd (go (emit (GoCopy outfile))) (\<lambda>_.
     bnd (go (emit (GoCopy errfile))) (\<lambda>_.
     ret (node_command path' idx key (''~/.gossamer_'' @ key) bootnodes))))))))))))"

section \<open>Peer discovery\<close>

function peer_loop :: "env \<Rightarrow> int \<Rightarrow> string \<times> error option \<Rightarrow> (string \<times> error option) M" where
  "peer_loop env j pe s =
     (if j < maxRetries then
        bnd (getPeerID env (''http://localhost:'' @ Itoa baseRPCPort))
          (\<lambda>(peerID, err). case err of
               None \<Rightarrow> ret (peerID, None)
             | Some e \<Rightarrow>
                 bnd (time_Sleep 1) (\<lambda>_. (\<lambda>s'. peer_loop env (j + 1) (peerID, Some e) s'))) s
      else ret pe s)"
  by pat_completeness auto
termination
  by (relation "measure (\<lambda>(env, j, pe, s). nat (maxRetries - j))") auto

section \<open>Bring-up (flag variant)\<close>

text \<open>The body of the goroutine that starts node \<open>i\<close>; \<open>nodeAddr\<close> is read when it
  runs.\<close>

definition start_node :: "env \<Rightarrow> int \<Rightarrow> string \<Rightarrow> string \<Rightarrow> unit M" where
  "start_node env i outfile errfile =
     bnd get_nodeAddr (\<lambda>addr.
     bnd (initAndStart env i genesis addr outfile errfile) (\<lambda>p.
     bnd (append_process p) (\<lambda>_. wg_Done)))"

text \<open>The loop over the nodes. Its value is \<open>Some err\<close> where \<open>run\<close> returns \<open>err\<close> from
  inside the loop, and \<open>None\<close> where the loop ends.\<close>

function bringup :: "env \<Rightarrow> bool \<Rightarrow> int \<Rightarrow> int \<Rightarrow> error option M" where
  "bringup env connect num i s =
     (if i < num then
        bnd (indexM keys i) (\<lambda>key.
        bnd (io (\<lambda>h. os_Create env h (''./log_'' @ key @ ''.out''))
                (Create (''./log_'' @ key @ ''.out'')))
          (\<lambda>err. case err of
             Some e \<Rightarrow> do_panic (PanicError e)
           | None \<Rightarrow>
        bnd (defer_call (DClose (''./log_'' @ key @ ''.out''))) (\<lambda>_.
        bnd (io (\<lambda>h. os_Create env h (''./err_'' @ key @ ''.out''))
                (Create (''./err_'' @ key @ ''.out'')))
          (\<lambda>err. case err of
             Some e \<Rightarrow> do_panic (PanicError e)
           | None \<Rightarrow>
        bnd (defer_call (DClose (''./err_'' @ key @ ''.out''))) (\<lambda>_.
        if connect \<and> i = 0 then
          bnd (initAndStart env i genesis [] (''./log_'' @ key @ ''.out'')
                 (''./err_'' @ key @ ''.out'')) (\<lambda>p.
          bnd (append_process p) (\<lambda>_.
          bnd wg_Done (\<lambda>_.
          bnd (peer_loop env 0 ([], None)) (\<lambda>(peerID, err). case err of
              Some e \<Rightarrow>
                bnd (Println ''failed to get peerID from first node'') (\<lambda>_. ret (Some e))
            | None \<Rightarrow>
                bnd (set_nodeAddr (baseaddr @ Itoa baseport @ ''/p2p/'' @ peerID)) (\<lambda>_.
                bnd (Println (''got node addr for node '' @ baseaddr @ Itoa baseport
                              @ ''/p2p/'' @ peerID)) (\<lambda>_.
                (\<lambda>s'. bringup env connect num (i + 1) s')))))))
        else
          bnd (go (start_node env i (''./log_'' @ key @ ''.out'') (''./err_'' @ key @ ''.out'')))
            (\<lambda>_. (\<lambda>s'. bringup env connect num (i + 1) s'))))))) s
      else ret None s)"
  by pat_completeness auto
termination
  by (relation "measure (\<lambda>(env, connect, num, i, s). nat (num - i))") auto

text \<open>After the barrier, one goroutine per node waits for its process to exit. It
  blocks in \<open>Wait\<close> for as long as the process runs; what it prints when the process has
  exited is not ordered with the rest of the run and is left out of the log.\<close>

function waiters :: "int \<Rightarrow> int \<Rightarrow> unit M" where
  "waiters num i s =
     (if i < num then
        bnd (go (bnd get_processes (\<lambda>ps. bnd (indexM ps i) (\<lambda>p. emit (GoWait p)))))
          (\<lambda>_. (\<lambda>s'. waiters num (i + 1) s')) s
      else ret () s)"
  by pat_completeness auto
termination
  by (relation "measure (\<lambda>(num, i, s). nat (num - i))") auto

section \<open>Teardown\<close>

function kill_loop :: "env \<Rightarrow> bool \<Rightarrow> int \<Rightarrow> int \<Rightarrow> unit M" where
  "kill_loop env logged num i s =
     (if i < num then
        bnd get_processes (\<lambda>ps.
        bnd (indexM ps i) (\<lambda>p.
        bnd (io (\<lambda>h. process_Kill env h p) (Kill p)) (\<lambda>err.
        bnd (case err of
               None \<Rightarrow> ret ()
             | Some e \<Rightarrow>
                 if logged then
                   bnd (indexM keys i) (\<lambda>key.
                     Print (''could not kill process '' @ key @ ''!!! '' @ Error e @ ''\<newline>''))
                 else ret ())
          (\<lambda>_. (\<lambda>s'. kill_loop env logged num (i + 1) s'))))) s
      else ret () s)"
  by pat_completeness auto
termination
  by (relation "measure (\<lambda>(env, logged, num, i, s). nat (num - i))") auto

definition run_deferred :: "env \<Rightarrow> deferred \<Rightarrow> unit M" where
  "run_deferred env d =
     (case d of DClose f \<Rightarrow> emit (FileClose f) | DKillAll num logged \<Rightarrow> kill_loop env logged num 0)"

text \<open>Deferred calls run last registered first, when the function returns or panics;
  a panic in one of them replaces the outcome and the others still run.\<close>

fun run_defers :: "env \<Rightarrow> deferred list \<Rightarrow> 'a res \<Rightarrow> state \<Rightarrow> 'a res \<times> state" where
  "run_defers env [] out s = (out, s)"
| "run_defers env (d # ds) out s =
     (case run_deferred env d s of
        (Ret u, s') \<Rightarrow> run_defers env ds out s'
      | (Panic p, s') \<Rightarrow> run_defers env ds (Panic p) s'
      | (Exit c, s') \<Rightarrow> (Exit c, s'))"

text \<open>\<open>os.Exit\<close> ends the process at once: deferred calls do not run.\<close>

definition with_defers :: "env \<Rightarrow> 'a M \<Rightarrow> 'a M" where
  "with_defers env body =
     (\<lambda>s. case body s of
            (Exit c, s') \<Rightarrow> (Exit c, s')
          | (out, s') \<Rightarrow> run_defers env (defers s') out (s'\<lparr>defers := []\<rparr>))"

section \<open>Verification\<close>

text \<open>"get storage before": one node after the other, up to 8 reads each.\<close>

function storage_before_retry :: "env \<Rightarrow> string \<Rightarrow> string \<Rightarrow> int \<Rightarrow> byteslice \<Rightarrow> byteslice M" where
  "storage_before_retry env endpoint key j res s =
     (if j < 8 then
        bnd (getStorage env endpoint key)
          (\<lambda>(res', err). case err of
               None \<Rightarrow> ret res'
             | Some e \<Rightarrow>
                 bnd (time_Sleep 1)
                   (\<lambda>_. (\<lambda>s'. storage_before_retry env endpoint key (j + 1) res' s'))) s
      else ret res s)"
  by pat_completeness auto
termination
  by (relation "measure (\<lambda>(env, endpoint, key, j, res, s). nat (8 - j))") auto

definition got_storage :: "int \<Rightarrow> byteslice \<Rightarrow> string" where
  "got_storage i res =
     ''got storage from node '' @ Itoa i @ '': 0x'' @ hex_EncodeToString (contents res)
     @ ''\<newline>''"

definition storage_before_node :: "env \<Rightarrow> int \<Rightarrow> string \<Rightarrow> int \<Rightarrow> unit M" where
  "storage_before_node env port key i =
     bnd (storage_before_retry env (''http://localhost:'' @ Itoa (port + i)) key 0 NilSlice)
       (\<lambda>res. Print (got_storage i res))"

function storage_before :: "env \<Rightarrow> int \<Rightarrow> string \<Rightarrow> int \<Rightarrow> int \<Rightarrow> unit M" where
  "storage_before env port key num i s =
     (if i < num then
        bnd (storage_before_node env port key i)
          (\<lambda>_. (\<lambda>s'. storage_before env port key num (i + 1) s')) s
      else ret () s)"
  by pat_completeness auto
termination
  by (relation "measure (\<lambda>(env, port, key, num, i, s). nat (num - i))") auto

text \<open>"query for storage": one goroutine per node, up to \<open>maxRetries\<close> reads each.\<close>

function query_retry :: "env \<Rightarrow> string \<Rightarrow> string \<Rightarrow> int \<Rightarrow> byteslice \<Rightarrow> byteslice M" where
  "query_retry env endpoint key j res s =
     (if j < maxRetries then
        bnd (getStorage env endpoint key)
          (\<lambda>(res', err).
             if err = None \<and> \<not> bytes_Equal res' (Bytes []) then ret res'
             else bnd (time_Sleep 1)
                    (\<lambda>_. (\<lambda>s'. query_retry env endpoint key (j + 1) res' s'))) s
      else ret res s)"
  by pat_completeness auto
termination
  by (relation "measure (\<lambda>(env, endpoint, key, j, res, s). nat (maxRetries - j))") auto

definition query_node :: "env \<Rightarrow> int \<Rightarrow> string \<Rightarrow> int \<Rightarrow> unit M" where
  "query_node env port key i =
     bnd (query_retry env (''http://localhost:'' @ Itoa (port + i)) key 0 NilSlice)
       (\<lambda>res. bnd (Print (got_storage i res)) (\<lambda>_. wg_Done))"

function query_storage :: "env \<Rightarrow> int \<Rightarrow> string \<Rightarrow> int \<Rightarrow> int \<Rightarrow> unit M" where
  "query_storage env port key num i s =
     (if i < num then
        bnd (wg_Add 1) (\<lambda>_.
        bnd (go (query_node env port key i))
          (\<lambda>_. (\<lambda>s'. query_storage env port key num (i + 1) s'))) s
      else ret () s)"
  by pat_completeness auto
termination
  by (relation "measure (\<lambda>(env, port, key, num, i, s). nat (num - i))") auto

text \<open>The extrinsic: \<open>extrinsic.NewStorageChangeExt(key, optional.NewBytes(true, value))\<close>
  and its \<open>Encode\<close>, from gossamer, are the environment's \<open>ext_Encode\<close>.\<close>

definition encode_extrinsic :: "env \<Rightarrow> string \<Rightarrow> string \<Rightarrow> string M" where
  "encode_extrinsic env key val =
     (case ext_Encode env key val of
        (tx, Some e) \<Rightarrow> bnd (Println (Error e)) (\<lambda>_. os_Exit 1)
      | (tx, None) \<Rightarrow> ret (hex_EncodeToString (contents tx)))"

definition submit_params :: "string \<Rightarrow> string" where
  \<open>submit_params txStr = ''"0x'' @ txStr @ ''"''\<close>

text \<open>"submit extrinsic" and what follows it (flag variant): the submission goes to
  the node drawn by \<open>rand.Intn(num)\<close>.\<close>

definition submit_and_query :: "env \<Rightarrow> int \<Rightarrow> string \<Rightarrow> error option M" where
  "submit_and_query env num txStr =
     bnd (rand_Intn env num) (\<lambda>r.
     bnd (postRPC env ''author_submitExtrinsic'' (''http://localhost:'' @ Itoa (baseRPCPort + r))
            (submit_params txStr))
       (\<lambda>(respBody, err). case err of
          Some e \<Rightarrow> bnd (Println (Error e)) (\<lambda>_. os_Exit 1)
        | None \<Rightarrow>
     bnd (Print (''submitted extrinsic to node '' @ Itoa r @ ''\<newline>'')) (\<lambda>_.
     bnd (Print (''response: '' @ contents respBody @ ''\<newline>'')) (\<lambda>_.
     bnd (query_storage env baseRPCPort ''noot'' num 0) (\<lambda>_.
     bnd wg_Wait (\<lambda>_.
     ret None))))))"

text \<open>\<open>run\<close> from the settle delay on (flag variant).\<close>

definition verify :: "env \<Rightarrow> int \<Rightarrow> error option M" where
  "verify env num =
     bnd (time_Sleep 5) (\<lambda>_.
     bnd (encode_extrinsic env ''noot'' ''washere'') (\<lambda>txStr.
     bnd (Println ''storage before'') (\<lambda>_.
     bnd (storage_before env baseRPCPort ''noot'' num 0) (\<lambda>_.
     submit_and_query env num txStr))))"

section \<open>\<open>run\<close> and \<open>main\<close> (flag variant)\<close>

text \<open>The flags as the command-line library hands them over: \<open>ctx.Uint\<close> of \<open>num\<close> (0
  when absent), \<open>ctx.Bool\<close> of \<open>connect\<close>, \<open>ctx.String\<close> of \<open>path\<close>.\<close>

record Context =
  Uint_num :: "64 word"
  Bool_connect :: bool
  String_path :: string

definition run_body :: "env \<Rightarrow> Context \<Rightarrow> error option M" where
  "run_body env ctx =
     (if sint (Uint_num ctx) smod 3 \<noteq> 0 then
        bnd (Print ''must do 3, 6, 9 nodes'') (\<lambda>_. os_Exit 1)
      else
        bnd (if String_path ctx \<noteq> [] then set_gossamerPath (String_path ctx) else ret ()) (\<lambda>_.
        bnd (Println (''num nodes: '' @ Itoa (sint (Uint_num ctx)))) (\<lambda>_.
        bnd (wg_Add (sint (Uint_num ctx))) (\<lambda>_.
        bnd (bringup env (Bool_connect ctx) (sint (Uint_num ctx)) 0) (\<lambda>early.
          case early of
            Some err \<Rightarrow> ret (Some err)
          | None \<Rightarrow>
        bnd wg_Wait (\<lambda>_.
        bnd (waiters (sint (Uint_num ctx)) 0) (\<lambda>_.
        bnd (defer_call (DKillAll (sint (Uint_num ctx)) True)) (\<lambda>_.
        verify env (sint (Uint_num ctx))))))))))"

definition run :: "env \<Rightarrow> Context \<Rightarrow> error option M" where
  "run env ctx = with_defers env (run_body env ctx)"

text \<open>\<open>main\<close>: the exit status of the process and the final state. A panic that
  reaches the top ends the process with status 2.\<close>

definition main :: "env \<Rightarrow> Context \<Rightarrow> state \<Rightarrow> int \<times> state" where
  "main env ctx s =
     (case run env ctx s of
        (Ret None, s') \<Rightarrow> (0, s')
      | (Ret (Some err), s') \<Rightarrow> (1, s'\<lparr>trace := trace s' @ [Stderr (Error err @ ''\<newline>'')]\<rparr>)
      | (Exit c, s') \<Rightarrow> (c, s')
      | (Panic p, s') \<Rightarrow> (2, s'))"

section \<open>The positional variant (main.go)\<close>

definition node_command_main_go :: "int \<Rightarrow> string \<Rightarrow> string \<Rightarrow> Cmd" where
  "node_command_main_go idx key basepath =
     Cmd ''../../ChainSafe/gossamer/bin/gossamer''
       [''--port'', Itoa (7000 + idx), ''--config'', config, ''--key'', key,
        ''--basepath'', basepath, ''--rpcport'', Itoa (8540 + idx), ''--rpc'']"

definition initAndStart_main_go :: "env \<Rightarrow> int \<Rightarrow> string \<Rightarrow> string \<Rightarrow> Cmd M" where
  "initAndStart_main_go env idx outfile errfile =
     bnd (indexM keys idx) (\<lambda>key.
     bnd (io (\<lambda>h. cmd_CombinedOutput env h
                    (init_command ''../../ChainSafe/gossamer/bin/gossamer''
                       (''~/.gossamer_'' @ key) genesis))
             (\<lambda>r. CombinedOutput (init_command ''../../ChainSafe/gossamer/bin/gossamer''
                                     (''~/.gossamer_'' @ key) genesis) (fst r) (snd r)))
       (\<lambda>(stdout, err). case err of
          Some e \<Rightarrow> do_panic (PanicError e)
        | None \<Rightarrow>
     bnd (emit (FileWrite outfile stdout)) (\<lambda>_.
     bnd (Println (''initialized node '' @ key)) (\<lambda>_.
     bnd (io (\<lambda>h. cmd_StdoutPipe env h (node_command_main_go idx key (''~/.gossamer_'' @ key)))
             (StdoutPipe (node_command_main_go idx key (''~/.gossamer_'' @ key))))
       (\<lambda>err. case err of
          Some e \<Rightarrow> do_panic (PanicError e)
        | None \<Rightarrow>
     bnd (io (\<lambda>h. cmd_StderrPipe env h (node_command_main_go idx key (''~/.gossamer_'' @ key)))
             (StderrPipe (node_command_main_go idx key (''~/.gossamer_'' @ key))))
       (\<lambda>err. case err of
          Some e \<Rightarrow> do_panic (PanicError e)
        | None \<Rightarrow>
     bnd (io (\<lambda>h. cmd_Start env h (node_command_main_go idx key (''~/.gossamer_'' @ key)))
             (CmdStart (node_command_main_go idx key (''~/.gossamer_'' @ key))))
       (\<lambda>err. case err of
          Some e \<Rightarrow> do_panic (PanicError e)
        | None \<Rightarrow>
     bnd (go (emit (GoCopy outfile))) (\<lambda>_.
     bnd (go (emit (GoCopy errfile))) (\<lambda>_.
     ret (node_command_main_go idx key (''~/.gossamer_'' @ key)))))))))))"

text \<open>The loop of \<open>main\<close> in main.go; after creating the error file it defers closing
  the log file a second time.\<close>

function bringup_main_go :: "env \<Rightarrow> int \<Rightarrow> int \<Rightarrow> unit M" where
  "bringup_main_go env num i s =
     (if i < num then
        bnd (indexM keys i) (\<lambda>key.
        bnd (io (\<lambda>h. os_Create env h (''./log_'' @ key @ ''.out''))
                (Create (''./log_'' @ key @ ''.out'')))
          (\<lambda>err. case err of
             Some e \<Rightarrow> do_panic (PanicError e)
           | None \<Rightarrow>
        bnd (defer_call (DClose (''./log_'' @ key @ ''.out''))) (\<lambda>_.
        bnd (io (\<lambda>h. os_Create env h (''./err_'' @ key @ ''.out''))
                (Create (''./err_'' @ key @ ''.out'')))
          (\<lambda>err. case err of
             Some e \<Rightarrow> do_panic (PanicError e)
           | None \<Rightarrow>
        bnd (defer_call (DClose (''./log_'' @ key @ ''.out''))) (\<lambda>_.
        bnd (go (bnd (initAndStart_main_go env i (''./log_'' @ key @ ''.out'')
                        (''./err_'' @ key @ ''.out''))
                   (\<lambda>p. bnd (append_process p) (\<lambda>_. wg_Done))))
          (\<lambda>_. (\<lambda>s'. bringup_main_go env num (i + 1) s'))))))) s
      else ret () s)"
  by pat_completeness auto
termination
  by (relation "measure (\<lambda>(env, num, i, s). nat (num - i))") auto

text \<open>The node count of main.go: 3, or the first argument read by \<open>strconv.Atoi\<close>.\<close>

definition node_count :: "string list \<Rightarrow> int M" where
  "node_count args =
     (if 1 < length args then
        (case Atoi (args ! 1) of
           Inl err \<Rightarrow> bnd (Println (Error err)) (\<lambda>_. os_Exit 1)
         | Inr num \<Rightarrow>
             if num smod 3 \<noteq> 0 then bnd (Print ''must do 3, 6, 9 nodes'') (\<lambda>_. os_Exit 1)
             else ret num)
      else ret 3)"

definition submit_and_query_main_go :: "env \<Rightarrow> int \<Rightarrow> string \<Rightarrow> unit M" where
  "submit_and_query_main_go env num txStr =
     bnd (postRPC env ''author_submitExtrinsic'' (''http://localhost:'' @ Itoa 8540)
            (submit_params txStr))
       (\<lambda>(respBody, err). case err of
          Some e \<Rightarrow> bnd (Println (Error e)) (\<lambda>_. os_Exit 1)
        | None \<Rightarrow>
     bnd (Println ''submitted extrinsic'') (\<lambda>_.
     bnd (Print (''response: '' @ contents respBody @ ''\<newline>'')) (\<lambda>_.
     bnd (query_storage env 8540 ''noot'' num 0) (\<lambda>_.
     wg_Wait))))"

definition verify_main_go :: "env \<Rightarrow> int \<Rightarrow> unit M" where
  "verify_main_go env num =
     bnd (time_Sleep 5) (\<lambda>_.
     bnd (encode_extrinsic env ''noot'' ''washere'') (\<lambda>txStr.
     bnd (Println ''storage before'') (\<lambda>_.
     bnd (storage_before env 8540 ''noot'' num 0) (\<lambda>_.
     submit_and_query_main_go env num txStr))))"

definition main_go_body :: "env \<Rightarrow> string list \<Rightarrow> unit M" where
  "main_go_body env args =
     bnd (node_count args) (\<lambda>num.
     bnd (Println (''num nodes: '' @ Itoa num)) (\<lambda>_.
     bnd (wg_Add num) (\<lambda>_.
     bnd (bringup_main_go env num 0) (\<lambda>_.
     bnd wg_Wait (\<lambda>_.
     bnd (defer_call (DKillAll num False)) (\<lambda>_.
     verify_main_go env num))))))"

definition main_go :: "env \<Rightarrow> string list \<Rightarrow> state \<Rightarrow> int \<times> state" where
  "main_go env args s =
     (case with_defers env (main_go_body env args) s of
        (Ret u, s') \<Rightarrow> (0, s')
      | (Exit c, s') \<Rightarrow> (c, s')
      | (Panic p, s') \<Rightarrow> (2, s'))"

section \<open>Reading the log\<close>

text \<open>The request body of a storage read, and the log of one read: at most the one
  HTTP request (none when the request cannot be built).\<close>

definition storage_request :: "env \<Rightarrow> string \<Rightarrow> string" where
  "storage_request env key =
     request_body ''state_getStorage''
       (CHR ''['' # CHR 0x22 # BytesToHex env key @ [CHR 0x22, CHR '']''])"

definition read_log :: "string \<Rightarrow> string \<Rightarrow> event list \<Rightarrow> bool" where
  "read_log endpoint body a = (a = [] \<or> (\<exists>r. a = [Http endpoint body r]))"

text \<open>The log of reads that each are followed by a sleep of one second.\<close>

definition slept :: "event list list \<Rightarrow> event list" where
  "slept as = concat (map (\<lambda>a. a @ [Sleep 1]) as)"

fun is_Stdout :: "event \<Rightarrow> bool" where
  "is_Stdout (Stdout text) = True"
| "is_Stdout e = False"

fun is_Kill :: "event \<Rightarrow> bool" where
  "is_Kill (Kill c r) = True"
| "is_Kill e = False"

fun is_started :: "event \<Rightarrow> bool" where
  "is_started (CmdStart c None) = True"
| "is_started e = False"

fun is_CmdStart :: "event \<Rightarrow> bool" where
  "is_CmdStart (CmdStart c r) = True"
| "is_CmdStart e = False"

text \<open>A request that submits an extrinsic.\<close>

definition is_submit :: "event \<Rightarrow> bool" where
  "is_submit e = (\<exists>host params r. e = Http host (request_body ''author_submitExtrinsic'' params) r)"

text \<open>No response body fails to be read (\<open>postRPC\<close> ends the process when one does).\<close>

definition readable :: "env \<Rightarrow> bool" where
  "readable env = (\<forall>h host data status err. http_Do env h host data \<noteq> Response status (Inl err))"

section \<open>Payloads with fields absent from the expected shape\<close>

text \<open>The property of the specification: a JSON value has, where a struct of the
  expected shape is decoded, an object key that matches none of the struct's fields.\<close>

fun unknown_in :: "gotype \<Rightarrow> json \<Rightarrow> bool"
  and unknown_keys :: "(string \<times> gotype) list \<Rightarrow> (string \<times> json) list \<Rightarrow> bool"
where
  "unknown_in (TPtr t) j = (j \<noteq> JNull \<and> unknown_in t j)"
| "unknown_in (TStruct fs) (JObject kvs) = unknown_keys fs kvs"
| "unknown_in t j = False"
| "unknown_keys fs [] = False"
| "unknown_keys fs (kv # kvs) =
     ((case find_field fs (fst kv) of None \<Rightarrow> True | Some f \<Rightarrow> unknown_in (snd f) (snd kv))
      \<or> unknown_keys fs kvs)"

section \<open>Concrete environments\<close>

text \<open>A world where files can be created and processes start and can be killed, but no
  node ever answers: every HTTP request fails in transport.\<close>

definition offline_env :: env where
  "offline_env =
     \<lparr>json_scan = (\<lambda>b. Inl (External ''unexpected end of JSON input'')),
      http_NewRequest = (\<lambda>host. None),
      http_Do = (\<lambda>h host body. DoError (External ''connection refused'')),
      HexToBytes = (\<lambda>x. (NilSlice, Some (External ''invalid string''))),
      BytesToHex = (\<lambda>b. ''0x'' @ hex_EncodeToString b),
      ext_Encode = (\<lambda>k v. (Bytes (k @ v), None)),
      rand_source = (\<lambda>h. 0),
      os_Create = (\<lambda>h p. None),
      cmd_CombinedOutput = (\<lambda>h c. ([], None)),
      cmd_StdoutPipe = (\<lambda>h c. None),
      cmd_StderrPipe = (\<lambda>h c. None),
      cmd_Start = (\<lambda>h c. None),
      process_Kill = (\<lambda>h c. None)\<rparr>"

text \<open>Response bodies, with the JSON values they denote.\<close>

definition body_error :: string where
  \<open>body_error = ''{"jsonrpc":"2.0","error":{"code":-32000,"message":"boom"},"id":1}''\<close>

definition json_error :: json where
  "json_error =
     JObject [(''jsonrpc'', JString ''2.0''),
              (''error'', JObject [(''code'', JNumber ''-32000''), (''message'', JString ''boom'')]),
              (''id'', JNumber ''1'')]"

definition body_error_extra :: string where
  \<open>body_error_extra =
     ''{"jsonrpc":"2.0","error":{"code":-32000,"message":"boom"},"id":1,"extra":true}''\<close>

definition json_error_extra :: json where
  "json_error_extra =
     JObject [(''jsonrpc'', JString ''2.0''),
              (''error'', JObject [(''code'', JNumber ''-32000''), (''message'', JString ''boom'')]),
              (''id'', JNumber ''1''),
              (''extra'', JBool True)]"

definition body_peer_extra :: string where
  \<open>body_peer_extra =
     ''{"jsonrpc":"2.0","result":{"networkState":{"peerId":"Qm1","extra":1}},"id":1}''\<close>

definition json_peer_extra :: json where
  "json_peer_extra =
     JObject [(''jsonrpc'', JString ''2.0''),
              (''result'', JObject [(''networkState'',
                  JObject [(''peerId'', JString ''Qm1''), (''extra'', JNumber ''1'')])]),
              (''id'', JNumber ''1'')]"

definition body_peer :: string where
  \<open>body_peer = ''{"jsonrpc":"2.0","result":{"networkState":{"peerId":"Qm1"}},"id":1}''\<close>

definition json_peer :: json where
  "json_peer =
     JObject [(''jsonrpc'', JString ''2.0''),
              (''result'', JObject [(''networkState'', JObject [(''peerId'', JString ''Qm1'')])]),
              (''id'', JNumber ''1'')]"

definition body_value :: string where
  \<open>body_value = ''{"jsonrpc":"2.0","result":"0x77617368657265","id":1}''\<close>

definition json_value :: json where
  "json_value =
     JObject [(''jsonrpc'', JString ''2.0''), (''result'', JString ''0x77617368657265''),
              (''id'', JNumber ''1'')]"

definition body_empty :: string where
  \<open>body_empty = ''{"jsonrpc":"2.0","result":"","id":1}''\<close>

definition json_empty :: json where
  "json_empty =
     JObject [(''jsonrpc'', JString ''2.0''), (''result'', JString []), (''id'', JNumber ''1'')]"

definition sample_scan :: "string \<Rightarrow> error + json" where
  "sample_scan b =
     (case map_of [(body_error, json_error), (body_error_extra, json_error_extra),
                   (body_peer_extra, json_peer_extra), (body_peer, json_peer),
                   (body_value, json_value), (body_empty, json_empty)] b of
        Some j \<Rightarrow> Inr j
      | None \<Rightarrow> Inl (External ''invalid character''))"

definition sample_HexToBytes :: "string \<Rightarrow> byteslice \<times> error option" where
  "sample_HexToBytes x =
     (if x = ''0x77617368657265'' then (Bytes ''washere'', None)
      else (NilSlice, Some (External ''could not byteify non 0x prefixed string'')))"

text \<open>A world whose nodes answer every request with one fixed response body.\<close>

definition answering_env :: "string \<Rightarrow> env" where
  "answering_env body =
     offline_env\<lparr>json_scan := sample_scan, HexToBytes := sample_HexToBytes,
                 http_Do := (\<lambda>h host data. Response 200 (Inr body))\<rparr>"

section \<open>Properties\<close>

declare peer_loop.simps [simp del] bringup.simps [simp del] waiters.simps [simp del]
  kill_loop.simps [simp del] storage_before_retry.simps [simp del]
  storage_before.simps [simp del] query_retry.simps [simp del] query_storage.simps [simp del]
  bringup_main_go.simps [simp del]

lemmas monad_defs =
  bnd_def ret_def os_Exit_def do_panic_def emit_def io_def Print_def Println_def
  time_Sleep_def fail_exit_def

lemmas var_defs =
  get_gossamerPath_def set_gossamerPath_def get_nodeAddr_def set_nodeAddr_def
  get_processes_def append_process_def defer_call_def wg_Add_def wg_Done_def wg_Wait_def

subsection \<open>Validation of the node count\<close>

lemma smod_zero_three: "(0::int) smod 3 = 0"
  by (simp add: signed_modulo_int_def)

lemma Atoi_four: "Atoi ''4'' = Inr 4"
  by (simp add: Atoi_def is_digit_def digits_value_def)

text \<open>
  C6. A node count that is not divisible by three ends the process with exit status 1
  and the only effect is the diagnostic on standard output: no file is created and no
  subprocess is run. This holds for the flag variant (\<open>main\<close>, the count being
  \<open>int(ctx.Uint("num"))\<close>) and for main.go (\<open>main_go\<close>, the count being the first
  argument as read by \<open>strconv.Atoi\<close>).
\<close>

theorem count_not_multiple_of_three_rejected:
  "(sint (Uint_num ctx) smod 3 \<noteq> 0 \<longrightarrow>
      main env ctx init_state
        = (1, init_state\<lparr>trace := [Stdout ''must do 3, 6, 9 nodes'']\<rparr>))
   \<and> (Atoi a = Inr n \<and> n smod 3 \<noteq> 0 \<longrightarrow>
      main_go env (prog # a # rest) init_state
        = (1, init_state\<lparr>trace := [Stdout ''must do 3, 6, 9 nodes'']\<rparr>))"
proof (intro conjI impI)
  assume "sint (Uint_num ctx) smod 3 \<noteq> 0"
  then show "main env ctx init_state
               = (1, init_state\<lparr>trace := [Stdout ''must do 3, 6, 9 nodes'']\<rparr>)"
    by (simp add: main_def run_def with_defers_def run_body_def monad_defs init_state_def)
next
  assume "Atoi a = Inr n \<and> n smod 3 \<noteq> 0"
  then show "main_go env (prog # a # rest) init_state
               = (1, init_state\<lparr>trace := [Stdout ''must do 3, 6, 9 nodes'']\<rparr>)"
    by (simp add: main_go_def with_defers_def main_go_body_def node_count_def monad_defs
          init_state_def)
qed

theorem count_four_rejected:
  "sint (Uint_num \<lparr>Uint_num = 4, Bool_connect = False, String_path = []\<rparr>) smod 3 \<noteq> 0
   \<and> main offline_env \<lparr>Uint_num = 4, Bool_connect = False, String_path = []\<rparr> init_state
       = (1, init_state\<lparr>trace := [Stdout ''must do 3, 6, 9 nodes'']\<rparr>)
   \<and> Atoi ''4'' = Inr 4 \<and> (4::int) smod 3 \<noteq> 0
   \<and> main_go offline_env [''harness'', ''4''] init_state
       = (1, init_state\<lparr>trace := [Stdout ''must do 3, 6, 9 nodes'']\<rparr>)"
proof -
  have h1: "sint (Uint_num \<lparr>Uint_num = 4, Bool_connect = False, String_path = []\<rparr>) smod 3 \<noteq> 0"
    by (simp add: signed_modulo_int_def)
  have h2: "Atoi ''4'' = Inr 4 \<and> (4::int) smod 3 \<noteq> 0"
    by (simp add: Atoi_four signed_modulo_int_def)
  show ?thesis
    using h1 h2
      count_not_multiple_of_three_rejected
        [where ctx = "\<lparr>Uint_num = 4, Bool_connect = False, String_path = []\<rparr>"
           and a = "''4''" and n = 4 and env = offline_env and prog = "''harness''"
           and rest = "[]"]
    by simp
qed

subsection \<open>A node count of zero\<close>

text \<open>
  C10. In the flag variant a node count of 0 (the value of the flag when it is absent)
  passes the validation; \<open>run\<close> goes on with no node: it prints the count, sleeps, prints
  the baseline header, and then panics in \<open>rand.Intn(0)\<close>. No diagnostic is printed and
  the process ends with status 2. (The extrinsic encoder is assumed to succeed on the
  fixed key and value.)
\<close>

theorem zero_nodes_panic_in_Intn:
  assumes "Uint_num ctx = 0" and "ext_Encode env ''noot'' ''washere'' = (tx, None)"
  shows "fst (run env ctx init_state) = Panic (PanicMsg ''invalid argument to Intn'')
         \<and> trace (snd (run env ctx init_state))
             = [Stdout ''num nodes: 0\<newline>'', Sleep 5, Stdout ''storage before\<newline>'']
         \<and> fst (main env ctx init_state) = 2"
proof -
  have r: "fst (run env ctx init_state) = Panic (PanicMsg ''invalid argument to Intn'')
         \<and> trace (snd (run env ctx init_state))
             = [Stdout ''num nodes: 0\<newline>'', Sleep 5, Stdout ''storage before\<newline>'']"
    using assms
    by (simp add: run_def with_defers_def run_body_def smod_zero_three monad_defs var_defs
          verify_def submit_and_query_def encode_extrinsic_def rand_Intn_def init_state_def
          Itoa_def digits.simps run_deferred_def bringup.simps waiters.simps kill_loop.simps
          storage_before.simps)
  then show ?thesis
    by (cases "run env ctx init_state") (simp add: main_def)
qed

theorem zero_nodes_panic_in_Intn_witness:
  "Uint_num \<lparr>Uint_num = 0, Bool_connect = False, String_path = []\<rparr> = 0
   \<and> ext_Encode offline_env ''noot'' ''washere'' = (Bytes ''nootwashere'', None)
   \<and> fst (run offline_env \<lparr>Uint_num = 0, Bool_connect = False, String_path = []\<rparr> init_state)
       = Panic (PanicMsg ''invalid argument to Intn'')
   \<and> fst (main offline_env \<lparr>Uint_num = 0, Bool_connect = False, String_path = []\<rparr> init_state)
       = 2"
proof -
  have h1: "Uint_num \<lparr>Uint_num = 0, Bool_connect = False, String_path = []\<rparr> = 0"
    by simp
  have h2: "ext_Encode offline_env ''noot'' ''washere'' = (Bytes ''nootwashere'', None)"
    by (simp add: offline_env_def)
  show ?thesis
    using h1 h2 zero_nodes_panic_in_Intn [OF h1 h2]
    by simp
qed

subsection \<open>Strict decoding of RPC responses\<close>

lemma saveError_Some: "saveError e s \<noteq> None"
  by (cases s) auto

lemma keeps_error:
  "s \<noteq> None \<Longrightarrow> snd (unmarshal strict t j v s) \<noteq> None"
  "s \<noteq> None \<Longrightarrow> snd (object strict fs kvs vs s) \<noteq> None"
  by (induction strict t j v s and strict fs kvs vs s rule: unmarshal_object.induct)
     (auto simp: saveError_Some split: prod.splits option.splits)

lemma object_keeps_Some: "\<exists>y. snd (object strict fs kvs vs (Some e)) = Some y"
  using keeps_error(2) [of "Some e" strict fs kvs vs] by auto

lemma object_keeps_saved: "\<exists>y. snd (object strict fs kvs vs (saveError e s)) = Some y"
  using keeps_error(2) [of "saveError e s" strict fs kvs vs] by (auto simp: saveError_Some)

text \<open>With \<open>DisallowUnknownFields\<close>, a value with a key outside the shape is refused.\<close>

lemma unknown_error:
  "unknown_in t j \<Longrightarrow> snd (unmarshal True t j v s) \<noteq> None"
  "unknown_keys fs kvs \<Longrightarrow> snd (object True fs kvs vs s) \<noteq> None"
  by (induction True t j v s and True fs kvs vs s rule: unmarshal_object.induct)
     (auto simp: saveError_Some object_keeps_Some object_keeps_saved
           split: prod.splits option.splits)

text \<open>
  C1, as the claim states it, fails: a response whose envelope has both a populated
  error object and a key that is no field of the envelope is refused with the decoder's
  error for the unknown key, not with the error object's message. The body below denotes
  an envelope whose error object has the message \<open>boom\<close>.
\<close>

theorem decodeRPC_error_message_counterexample:
  "json_scan (answering_env []) body_error_extra = Inr json_error_extra
   \<and> map_option Error_Message
       (response_Error
          (fst (unmarshal True ServerResponseT json_error_extra (zero ServerResponseT) None)))
     = Some ''boom''
   \<and> decodeRPC (answering_env []) TString body_error_extra (VString [])
     = (VString [], Some (JsonUnknownField ''extra''))
   \<and> snd (decodeRPC (answering_env []) TString body_error_extra (VString []))
     \<noteq> Some (ErrorsNew ''boom'')"
  by code_simp

text \<open>
  C1, amended. For every response body that the scanner accepts as a JSON value:
  \<^item> if the value has, against the envelope's shape, a key that matches no field (keys
    are matched as the decoder matches them), \<open>decodeRPC\<close> returns an error;
  \<^item> if the result payload kept in the decoded envelope has such a key against the
    target's shape, \<open>decodeRPC\<close> returns an error;
  \<^item> if the envelope decodes without error and its error field is populated,
    \<open>decodeRPC\<close> returns exactly \<open>errors.New\<close> of the error object's message and leaves
    the target as it was: the result payload is not decoded.
\<close>

theorem decodeRPC_strict:
  "(json_scan env body = Inr j \<and> unknown_in ServerResponseT j
      \<longrightarrow> snd (decodeRPC env t body target) \<noteq> None)
   \<and> (json_scan env body = Inr j
       \<and> response_Result (fst (unmarshal True ServerResponseT j (zero ServerResponseT) None))
           = Some r
       \<and> unknown_in t r
      \<longrightarrow> snd (decodeRPC env t body target) \<noteq> None)
   \<and> (json_scan env body = Inr j
       \<and> unmarshal True ServerResponseT j (zero ServerResponseT) None = (response, None)
       \<and> response_Error response = Some e
      \<longrightarrow> decodeRPC env t body target = (target, Some (ErrorsNew (Error_Message e))))"
proof (intro conjI impI)
  assume a: "json_scan env body = Inr j \<and> unknown_in ServerResponseT j"
  then have "snd (unmarshal True ServerResponseT j (zero ServerResponseT) None) \<noteq> None"
    by (simp add: unknown_error(1))
  with a show "snd (decodeRPC env t body target) \<noteq> None"
    by (auto simp: decodeRPC_def Decode_def split: prod.splits option.splits)
next
  assume a: "json_scan env body = Inr j
      \<and> response_Result (fst (unmarshal True ServerResponseT j (zero ServerResponseT) None))
          = Some r
      \<and> unknown_in t r"
  then have "snd (unmarshal True t r target None) \<noteq> None"
    by (simp add: unknown_error(1))
  with a show "snd (decodeRPC env t body target) \<noteq> None"
    by (auto simp: decodeRPC_def Decode_def DecodeRaw_def split: prod.splits option.splits)
next
  assume "json_scan env body = Inr j
      \<and> unmarshal True ServerResponseT j (zero ServerResponseT) None = (response, None)
      \<and> response_Error response = Some e"
  then show "decodeRPC env t body target = (target, Some (ErrorsNew (Error_Message e)))"
    by (simp add: decodeRPC_def Decode_def)
qed

theorem decodeRPC_strict_witness:
  "(json_scan (answering_env []) body_error_extra = Inr json_error_extra
    \<and> unknown_in ServerResponseT json_error_extra)
   \<and> snd (decodeRPC (answering_env []) TString body_error_extra (VString [])) \<noteq> None
   \<and> (json_scan (answering_env []) body_peer_extra = Inr json_peer_extra
      \<and> response_Result
           (fst (unmarshal True ServerResponseT json_peer_extra (zero ServerResponseT) None))
         = Some (JObject [(''networkState'',
                    JObject [(''peerId'', JString ''Qm1''), (''extra'', JNumber ''1'')])])
      \<and> unknown_in (TPtr SystemNetworkStateResponseT)
           (JObject [(''networkState'',
                    JObject [(''peerId'', JString ''Qm1''), (''extra'', JNumber ''1'')])]))
   \<and> snd (decodeRPC (answering_env []) (TPtr SystemNetworkStateResponseT) body_peer_extra
             (VPtr (Some (zero SystemNetworkStateResponseT)))) \<noteq> None
   \<and> (json_scan (answering_env []) body_error = Inr json_error
      \<and> unmarshal True ServerResponseT json_error (zero ServerResponseT) None
         = (fst (unmarshal True ServerResponseT json_error (zero ServerResponseT) None), None)
      \<and> response_Error
           (fst (unmarshal True ServerResponseT json_error (zero ServerResponseT) None))
         = Some (VStruct [(''message'', VString ''boom''), (''code'', VInt (- 32000)),
                          (''data'', VMap None)]))
   \<and> decodeRPC (answering_env []) TString body_error (VString [])
       = (VString [], Some (ErrorsNew ''boom''))"
proof -
  have h1: "json_scan (answering_env []) body_error_extra = Inr json_error_extra
            \<and> unknown_in ServerResponseT json_error_extra"
    by code_simp
  have h2: "json_scan (answering_env []) body_peer_extra = Inr json_peer_extra
      \<and> response_Result
           (fst (unmarshal True ServerResponseT json_peer_extra (zero ServerResponseT) None))
         = Some (JObject [(''networkState'',
                    JObject [(''peerId'', JString ''Qm1''), (''extra'', JNumber ''1'')])])
      \<and> unknown_in (TPtr SystemNetworkStateResponseT)
           (JObject [(''networkState'',
                    JObject [(''peerId'', JString ''Qm1''), (''extra'', JNumber ''1'')])])"
    by code_simp
  have h3: "json_scan (answering_env []) body_error = Inr json_error
      \<and> unmarshal True ServerResponseT json_error (zero ServerResponseT) None
         = (fst (unmarshal True ServerResponseT json_error (zero ServerResponseT) None), None)
      \<and> response_Error
           (fst (unmarshal True ServerResponseT json_error (zero ServerResponseT) None))
         = Some (VStruct [(''message'', VString ''boom''), (''code'', VInt (- 32000)),
                          (''data'', VMap None)])"
    by code_simp
  have m: "Error_Message (VStruct [(''message'', VString ''boom''), (''code'', VInt (- 32000)),
                          (''data'', VMap None)]) = ''boom''"
    by code_simp
  note a = decodeRPC_strict
    [where env = "answering_env []" and body = body_error_extra and j = json_error_extra
       and t = TString and target = "VString []"]
  note b = decodeRPC_strict
    [where env = "answering_env []" and body = body_peer_extra and j = json_peer_extra
       and t = "TPtr SystemNetworkStateResponseT"
       and target = "VPtr (Some (zero SystemNetworkStateResponseT))"
       and r = "JObject [(''networkState'',
                    JObject [(''peerId'', JString ''Qm1''), (''extra'', JNumber ''1'')])]"]
  note c = decodeRPC_strict
    [where env = "answering_env []" and body = body_error and j = json_error
       and t = TString and target = "VString []"
       and response = "fst (unmarshal True ServerResponseT json_error (zero ServerResponseT) None)"
       and e = "VStruct [(''message'', VString ''boom''), (''code'', VInt (- 32000)),
                          (''data'', VMap None)]"]
  have r1: "snd (decodeRPC (answering_env []) TString body_error_extra (VString [])) \<noteq> None"
    using a h1 by blast
  have r2: "snd (decodeRPC (answering_env []) (TPtr SystemNetworkStateResponseT) body_peer_extra
             (VPtr (Some (zero SystemNetworkStateResponseT)))) \<noteq> None"
    using b h2 by blast
  have r3: "decodeRPC (answering_env []) TString body_error (VString [])
       = (VString [], Some (ErrorsNew ''boom''))"
    using c h3 by (simp add: m)
  show ?thesis
    using h1 h2 h3 r1 r2 r3 by blast
qed

subsection \<open>Reading storage\<close>

text \<open>
  C2. Whenever the request returns a body and the body decodes to a string,
  \<open>getStorage\<close> returns the empty, non-nil byte slice with a nil error if the string is
  empty, and otherwise exactly what \<open>common.HexToBytes\<close> makes of the string: its bytes
  with a nil error, or its error with a nil slice.
\<close>

theorem getStorage_result:
  assumes "fst (postRPC env ''state_getStorage'' endpoint
                  (CHR ''['' # CHR 0x22 # BytesToHex env key @ [CHR 0x22, CHR '']'']) s)
           = Ret (respBody, None)"
    and "decodeRPC env TString (contents respBody) (VString []) = (VString x, None)"
  shows "fst (getStorage env endpoint key s)
         = Ret (if x = [] then (Bytes [], None)
                else (case HexToBytes env x of
                        (val, Some e) \<Rightarrow> (NilSlice, Some e)
                      | (val, None) \<Rightarrow> (val, None)))
         \<and> snd (getStorage env endpoint key s)
           = snd (postRPC env ''state_getStorage'' endpoint
                    (CHR ''['' # CHR 0x22 # BytesToHex env key @ [CHR 0x22, CHR '']'']) s)"
  using assms
  by (auto simp: getStorage_def bnd_def ret_def split: prod.splits option.splits)

theorem getStorage_result_witness:
  "fst (postRPC (answering_env body_empty) ''state_getStorage'' ''http://localhost:8540''
          (CHR ''['' # CHR 0x22 # BytesToHex (answering_env body_empty) ''noot''
             @ [CHR 0x22, CHR '']'']) init_state)
     = Ret (Bytes body_empty, None)
   \<and> decodeRPC (answering_env body_empty) TString (contents (Bytes body_empty)) (VString [])
     = (VString [], None)
   \<and> fst (getStorage (answering_env body_empty) ''http://localhost:8540'' ''noot'' init_state)
     = Ret (Bytes [], None)
   \<and> Bytes [] \<noteq> NilSlice
   \<and> fst (postRPC (answering_env body_value) ''state_getStorage'' ''http://localhost:8540''
          (CHR ''['' # CHR 0x22 # BytesToHex (answering_env body_value) ''noot''
             @ [CHR 0x22, CHR '']'']) init_state)
     = Ret (Bytes body_value, None)
   \<and> decodeRPC (answering_env body_value) TString (contents (Bytes body_value)) (VString [])
     = (VString ''0x77617368657265'', None)
   \<and> fst (getStorage (answering_env body_value) ''http://localhost:8540'' ''noot'' init_state)
     = Ret (Bytes ''washere'', None)"
proof -
  have p1: "fst (postRPC (answering_env body_empty) ''state_getStorage'' ''http://localhost:8540''
          (CHR ''['' # CHR 0x22 # BytesToHex (answering_env body_empty) ''noot''
             @ [CHR 0x22, CHR '']'']) init_state)
     = Ret (Bytes body_empty, None)"
    by code_simp
  have d1: "decodeRPC (answering_env body_empty) TString (contents (Bytes body_empty)) (VString [])
     = (VString [], None)"
    by code_simp
  have p2: "fst (postRPC (answering_env body_value) ''state_getStorage'' ''http://localhost:8540''
          (CHR ''['' # CHR 0x22 # BytesToHex (answering_env body_value) ''noot''
             @ [CHR 0x22, CHR '']'']) init_state)
     = Ret (Bytes body_value, None)"
    by code_simp
  have d2: "decodeRPC (answering_env body_value) TString (contents (Bytes body_value)) (VString [])
     = (VString ''0x77617368657265'', None)"
    by code_simp
  have hx: "HexToBytes (answering_env body_value) ''0x77617368657265'' = (Bytes ''washere'', None)"
    by code_simp
  have r1: "fst (getStorage (answering_env body_empty) ''http://localhost:8540'' ''noot'' init_state)
     = Ret (Bytes [], None)"
    using getStorage_result [OF p1 d1] by simp
  have r2: "fst (getStorage (answering_env body_value) ''http://localhost:8540'' ''noot'' init_state)
     = Ret (Bytes ''washere'', None)"
    using getStorage_result [OF p2 d2] by (simp add: hx)
  show ?thesis
    using p1 d1 p2 d2 r1 r2 by simp
qed

end
